theory Spec2Isabelle
  imports Main "HOL-Library.Word"
begin

section \<open>Shared data: bytes, unsigned integers, Go errors\<close>

text \<open>
  Go's \<^verbatim>\<open>uint64\<close> (slots, epochs, validator indices, gas limits, values) is a 64-bit
  word; division is the unsigned word division. A \<^verbatim>\<open>[]byte\<close> is a list of 8-bit
  words. A \<^verbatim>\<open>[32]byte\<close> array is a byte list of length exactly 32; slicing the
  array (\<^verbatim>\<open>a[:]\<close>) is the representation function \<open>slice32\<close>.
\<close>

type_synonym uint64 = "64 word"
type_synonym bytes = "8 word list"

typedef bytes32 = "{bs :: bytes. length bs = 32}"
  morphisms slice32 array32
proof
  show "replicate 32 0 \<in> {bs :: bytes. length bs = 32}" by simp
qed

text \<open>
  The canonical gRPC status codes (\<^verbatim>\<open>google.golang.org/grpc/codes\<close>); the source uses
  \<^verbatim>\<open>codes.FailedPrecondition\<close> and \<^verbatim>\<open>codes.Internal\<close>, collaborators may attach any.
\<close>

datatype code =
    OK | Canceled | Unknown | InvalidArgument | DeadlineExceeded | NotFound
  | AlreadyExists | PermissionDenied | ResourceExhausted | FailedPrecondition
  | Aborted | OutOfRange | Unimplemented | Internal | Unavailable | DataLoss
  | Unauthenticated

text \<open>
  A non-nil Go \<^verbatim>\<open>error\<close> is either a gRPC status error (built by
  \<^verbatim>\<open>status.Error\<close> / \<^verbatim>\<open>status.Errorf\<close>: a code and a message) or any other error,
  known by its text (\<^verbatim>\<open>errors.New(msg)\<close>). A nil error is \<open>None\<close> of
  \<open>error option\<close>.
\<close>

datatype error = StatusError code string | PlainError string

fun code_String :: "code \<Rightarrow> string" where
  "code_String OK = ''OK''"
| "code_String Canceled = ''Canceled''"
| "code_String Unknown = ''Unknown''"
| "code_String InvalidArgument = ''InvalidArgument''"
| "code_String DeadlineExceeded = ''DeadlineExceeded''"
| "code_String NotFound = ''NotFound''"
| "code_String AlreadyExists = ''AlreadyExists''"
| "code_String PermissionDenied = ''PermissionDenied''"
| "code_String ResourceExhausted = ''ResourceExhausted''"
| "code_String FailedPrecondition = ''FailedPrecondition''"
| "code_String Aborted = ''Aborted''"
| "code_String OutOfRange = ''OutOfRange''"
| "code_String Unimplemented = ''Unimplemented''"
| "code_String Internal = ''Internal''"
| "code_String Unavailable = ''Unavailable''"
| "code_String DataLoss = ''DataLoss''"
| "code_String Unauthenticated = ''Unauthenticated''"

text \<open>
  \<^verbatim>\<open>err.Error()\<close>, which is what the verb \<^verbatim>\<open>%v\<close> prints for an error. A status
  error renders as gRPC does (\<^verbatim>\<open>rpc error: code = ... desc = ...\<close>).
\<close>

fun Error :: "error \<Rightarrow> string" where
  "Error (StatusError c msg) = ''rpc error: code = '' @ code_String c @ '' desc = '' @ msg"
| "Error (PlainError msg) = msg"

text \<open>The gRPC code of an error as the transport reads it: \<^verbatim>\<open>status.Code(err)\<close>.\<close>

fun status_Code :: "error \<Rightarrow> code" where
  "status_Code (StatusError c msg) = c"
| "status_Code (PlainError msg) = Unknown"

section \<open>The local header pipeline (package validator)\<close>

subsection \<open>Data model\<close>

text \<open>\<^verbatim>\<open>ethpb.HeaderRequest\<close>: the fields \<^verbatim>\<open>Slot\<close> and \<^verbatim>\<open>ProposerIndex\<close>.\<close>

record HeaderRequest =
  req_Slot :: uint64
  req_ProposerIndex :: uint64

text \<open>
  The execution data of a local payload, read through its accessors
  \<^verbatim>\<open>ParentHash()\<close>, \<^verbatim>\<open>BlockHash()\<close> and \<^verbatim>\<open>GasLimit()\<close>, the blobs bundle with its
  ordered commitment list, and the payload response holding both.
\<close>

record ExecutionData =
  ed_ParentHash :: bytes
  ed_BlockHash :: bytes
  ed_GasLimit :: uint64

record BlobsBundle =
  KzgCommitments :: "bytes list"

record GetPayloadResponse =
  ExecutionData :: ExecutionData
  BlobsBundle :: BlobsBundle

text \<open>\<^verbatim>\<open>enginev1.ExecutionPayloadHeaderEPBS\<close>, the eight fields the source sets.\<close>

record ExecutionPayloadHeaderEPBS =
  ParentBlockHash :: bytes
  ParentBlockRoot :: bytes
  BlockHash :: bytes
  GasLimit :: uint64
  BuilderIndex :: uint64
  Slot :: uint64
  Value :: uint64
  BlobKzgCommitmentsRoot :: bytes

text \<open>
  \<^verbatim>\<open>params.BeaconConfig()\<close>: the two process-wide constants the function reads.
\<close>

record BeaconChainConfig =
  SlotsPerEpoch :: uint64
  EPBSForkEpoch :: uint64

text \<open>
  Modelled from the spec: \<^verbatim>\<open>slots.ToEpoch\<close> is not among the source files; the spec
  gives it as \<^verbatim>\<open>epoch = slot / SLOTS_PER_EPOCH\<close> with the protocol-defined constant,
  an unsigned integer division.
\<close>

definition ToEpoch :: "BeaconChainConfig \<Rightarrow> uint64 \<Rightarrow> uint64" where
  "ToEpoch bcfg slot = slot div SlotsPerEpoch bcfg"

text \<open>
  The server \<^verbatim>\<open>vs\<close> as the function sees it, a snapshot of its collaborators at
  call time: the answer of \<^verbatim>\<open>vs.SyncChecker.Syncing()\<close>, the error (or nil) of
  \<^verbatim>\<open>vs.optimisticStatus(ctx)\<close>, and the two lookups \<^verbatim>\<open>vs.getParentState\<close> and
  \<^verbatim>\<open>vs.getLocalPayloadFromEngine\<close>, each returning an error (\<open>Inl\<close>) or its
  values. The beacon state \<open>'st\<close> is opaque to the function.
\<close>

record 'st validator_Server =
  Syncing :: bool
  optimisticStatus :: "error option"
  getParentState :: "uint64 \<Rightarrow> error + ('st \<times> bytes32)"
  getLocalPayloadFromEngine ::
    "'st \<Rightarrow> bytes32 \<Rightarrow> uint64 \<Rightarrow> uint64 \<Rightarrow> error + GetPayloadResponse"

text \<open>
  Every call the function makes out of its own body, with its arguments, in the order
  made. The function returns this log beside its two Go results.
\<close>

datatype 'st call =
    Call_Syncing
  | Call_optimisticStatus
  | Call_getParentState uint64
  | Call_getLocalPayloadFromEngine 'st bytes32 uint64 uint64
  | Call_KzgCommitmentsRoot "bytes list"

subsection \<open>GetLocalHeader\<close>

text \<open>
  \<^verbatim>\<open>status.Error(c, msg)\<close> and \<^verbatim>\<open>status.Errorf(c, format, ...)\<close> with the message
  already formatted.
\<close>

definition status_Error :: "code \<Rightarrow> string \<Rightarrow> error" where
  "status_Error c msg = StatusError c msg"

text \<open>
  The function returns a pointer to a header (nil is \<open>None\<close>) and an error (nil is
  \<open>None\<close>), as the Go signature does. \<open>bcfg\<close> is \<^verbatim>\<open>params.BeaconConfig()\<close> and
  \<open>kzgRootFn\<close> is the package function \<^verbatim>\<open>ssz.KzgCommitmentsRoot\<close>, which is not among
  the source files and is taken as a parameter.
\<close>

definition GetLocalHeader ::
  "BeaconChainConfig \<Rightarrow> (bytes list \<Rightarrow> error + bytes32) \<Rightarrow> 'st validator_Server \<Rightarrow>
   HeaderRequest \<Rightarrow> 'st call list \<times> ExecutionPayloadHeaderEPBS option \<times> error option" where
  "GetLocalHeader bcfg kzgRootFn vs req =
    (if Syncing vs then
       ([Call_Syncing], None,
        Some (status_Error FailedPrecondition ''Syncing to latest head, not ready to respond''))
     else
      (case optimisticStatus vs of
         Some err \<Rightarrow>
           ([Call_Syncing, Call_optimisticStatus], None,
            Some (status_Error FailedPrecondition
                    (''Validator is not ready to propose: '' @ Error err)))
       | None \<Rightarrow>
          (let slot = req_Slot req;
               epoch = ToEpoch bcfg slot
           in if EPBSForkEpoch bcfg > epoch then
                ([Call_Syncing, Call_optimisticStatus], None,
                 Some (status_Error FailedPrecondition ''EPBS fork has not occurred yet''))
              else
               (case getParentState vs slot of
                  Inl err \<Rightarrow>
                    ([Call_Syncing, Call_optimisticStatus, Call_getParentState slot],
                     None, Some err)
                | Inr (st, parentRoot) \<Rightarrow>
                   (let proposerIndex = req_ProposerIndex req
                    in (case getLocalPayloadFromEngine vs st parentRoot slot proposerIndex of
                          Inl err \<Rightarrow>
                            ([Call_Syncing, Call_optimisticStatus, Call_getParentState slot,
                              Call_getLocalPayloadFromEngine st parentRoot slot proposerIndex],
                             None,
                             Some (status_Error Internal
                                     (''Could not get local payload: '' @ Error err)))
                        | Inr localPayload \<Rightarrow>
                           (case kzgRootFn (KzgCommitments (BlobsBundle localPayload)) of
                              Inl err \<Rightarrow>
                                ([Call_Syncing, Call_optimisticStatus, Call_getParentState slot,
                                  Call_getLocalPayloadFromEngine st parentRoot slot proposerIndex,
                                  Call_KzgCommitmentsRoot
                                    (KzgCommitments (BlobsBundle localPayload))],
                                 None,
                                 Some (status_Error Internal
                                         (''Could not get kzg commitments root: '' @ Error err)))
                            | Inr kzgRoot \<Rightarrow>
                                ([Call_Syncing, Call_optimisticStatus, Call_getParentState slot,
                                  Call_getLocalPayloadFromEngine st parentRoot slot proposerIndex,
                                  Call_KzgCommitmentsRoot
                                    (KzgCommitments (BlobsBundle localPayload))],
                                 Some \<lparr> ParentBlockHash =
                                          ed_ParentHash (ExecutionData localPayload),
                                        ParentBlockRoot = slice32 parentRoot,
                                        BlockHash = ed_BlockHash (ExecutionData localPayload),
                                        GasLimit = ed_GasLimit (ExecutionData localPayload),
                                        BuilderIndex = proposerIndex,
                                        Slot = slot,
                                        Value = 0,
                                        BlobKzgCommitmentsRoot = slice32 kzgRoot \<rparr>,
                                 None))))))))"

text \<open>The three parts of a run: the calls made, the header pointer, the error.\<close>

definition calls_of :: "'c list \<times> 'h option \<times> error option \<Rightarrow> 'c list" where
  "calls_of r = fst r"

definition header_of :: "'c list \<times> 'h option \<times> error option \<Rightarrow> 'h option" where
  "header_of r = fst (snd r)"

definition error_of :: "'c list \<times> 'h option \<times> error option \<Rightarrow> error option" where
  "error_of r = snd (snd r)"

text \<open>
  The three gate errors by name. \<open>NotReady\<close> is the syncing error,
  \<open>NotReadyCause err\<close> the optimistic one wrapping its cause, \<open>ForkNotActive\<close> the
  fork error; all three carry the precondition-failure code.
\<close>

definition NotReady :: error where
  "NotReady = StatusError FailedPrecondition ''Syncing to latest head, not ready to respond''"

definition NotReadyCause :: "error \<Rightarrow> error" where
  "NotReadyCause err =
     StatusError FailedPrecondition (''Validator is not ready to propose: '' @ Error err)"

definition ForkNotActive :: error where
  "ForkNotActive = StatusError FailedPrecondition ''EPBS fork has not occurred yet''"

subsection \<open>Sample inputs\<close>

text \<open>
  Concrete inputs on which the theorems below are exercised: a configuration with 32
  slots per epoch and the fork at epoch 100, a request at slot 1600 (epoch 50) and one at
  slot 3200 (epoch 100), a healthy server whose resolver answers state 7 with the
  parent root \<^verbatim>\<open>0xAA...\<close>, a payload with two commitments, and a stand-in for the
  commitment-root function that rejects more than six commitments.
\<close>

definition sample_cfg :: BeaconChainConfig where
  "sample_cfg = \<lparr> SlotsPerEpoch = 32, EPBSForkEpoch = 100 \<rparr>"

definition sample_req_early :: HeaderRequest where
  "sample_req_early = \<lparr> req_Slot = 1600, req_ProposerIndex = 5 \<rparr>"

definition sample_req_at_fork :: HeaderRequest where
  "sample_req_at_fork = \<lparr> req_Slot = 3200, req_ProposerIndex = 5 \<rparr>"

definition filled32 :: "8 word \<Rightarrow> bytes32" where
  "filled32 b = array32 (replicate 32 b)"

definition sample_payload :: GetPayloadResponse where
  "sample_payload =
     \<lparr> ExecutionData =
         \<lparr> ed_ParentHash = replicate 32 0x11, ed_BlockHash = replicate 32 0x22,
           ed_GasLimit = 30000000 \<rparr>,
       BlobsBundle = \<lparr> KzgCommitments = [replicate 48 1, replicate 48 2] \<rparr> \<rparr>"

definition sample_kzgRootFn :: "bytes list \<Rightarrow> error + bytes32" where
  "sample_kzgRootFn cs =
     (if 6 < length cs then Inl (PlainError ''too many commitments'')
      else Inr (filled32 (of_nat (length cs))))"

definition failing_kzgRootFn :: "bytes list \<Rightarrow> error + bytes32" where
  "failing_kzgRootFn cs = Inl (PlainError ''could not compute merkleization'')"

definition sample_resolver :: "uint64 \<Rightarrow> error + (nat \<times> bytes32)" where
  "sample_resolver slot = Inr (7, filled32 0xAA)"

definition failing_resolver :: "uint64 \<Rightarrow> error + (nat \<times> bytes32)" where
  "failing_resolver slot = Inl (StatusError NotFound ''could not find parent state'')"

definition sample_producer ::
  "nat \<Rightarrow> bytes32 \<Rightarrow> uint64 \<Rightarrow> uint64 \<Rightarrow> error + GetPayloadResponse" where
  "sample_producer st parentRoot slot proposerIndex = Inr sample_payload"

definition failing_producer ::
  "nat \<Rightarrow> bytes32 \<Rightarrow> uint64 \<Rightarrow> uint64 \<Rightarrow> error + GetPayloadResponse" where
  "failing_producer st parentRoot slot proposerIndex = Inl (PlainError ''engine unavailable'')"

definition sample_vs :: "nat validator_Server" where
  "sample_vs =
     \<lparr> Syncing = False, optimisticStatus = None, getParentState = sample_resolver,
       getLocalPayloadFromEngine = sample_producer \<rparr>"

definition optimistic_err :: error where
  "optimistic_err = StatusError Unavailable ''the node is currently optimistic''"

text \<open>
  A second run that differs from the first in everything but the commitments: another
  configuration, slot and proposer, another state and parent root, other execution
  data.
\<close>

definition other_cfg :: BeaconChainConfig where
  "other_cfg = \<lparr> SlotsPerEpoch = 8, EPBSForkEpoch = 3 \<rparr>"

definition other_req :: HeaderRequest where
  "other_req = \<lparr> req_Slot = 6400, req_ProposerIndex = 9 \<rparr>"

definition other_payload :: GetPayloadResponse where
  "other_payload =
     \<lparr> ExecutionData =
         \<lparr> ed_ParentHash = replicate 32 0x33, ed_BlockHash = replicate 32 0x44,
           ed_GasLimit = 36000000 \<rparr>,
       BlobsBundle = \<lparr> KzgCommitments = [replicate 48 1, replicate 48 2] \<rparr> \<rparr>"

definition other_resolver :: "uint64 \<Rightarrow> error + (nat \<times> bytes32)" where
  "other_resolver slot = Inr (9, filled32 0xBB)"

definition other_producer ::
  "nat \<Rightarrow> bytes32 \<Rightarrow> uint64 \<Rightarrow> uint64 \<Rightarrow> error + GetPayloadResponse" where
  "other_producer st parentRoot slot proposerIndex = Inr other_payload"

definition other_vs :: "nat validator_Server" where
  "other_vs =
     \<lparr> Syncing = False, optimisticStatus = None, getParentState = other_resolver,
       getLocalPayloadFromEngine = other_producer \<rparr>"

section \<open>The HTTP server constructor (package httprest)\<close>

text \<open>
  \<^verbatim>\<open>time.Duration\<close> is a 64-bit count of nanoseconds (signed: read it with
  \<open>sint\<close>); \<^verbatim>\<open>time.Second\<close> is \<open>10\<^sup>9\<close> of them.
\<close>

type_synonym Duration = "64 word"

definition Second :: Duration where
  "Second = 1000000000"

text \<open>
  The struct \<^verbatim>\<open>config\<close>. The handler and the router are pointers or function values
  that may be nil (\<open>None\<close>); what they point to is opaque (\<open>'h\<close>, \<open>'r\<close>).
\<close>

record ('h, 'r) config =
  httpAddr :: string
  allowedOrigins :: "string list"
  handler :: "'h option"
  router :: "'r option"
  timeout :: Duration

text \<open>The three fields of \<^verbatim>\<open>http.Server\<close> that the constructor sets.\<close>

record 'r http_Server =
  Addr :: string
  Handler :: "'r option"
  ReadHeaderTimeout :: Duration

text \<open>
  The struct \<^verbatim>\<open>Server\<close>. The configuration is held by pointer and only this server
  refers to it, so it is a field here; \<^verbatim>\<open>server\<close> is a pointer, nil until the
  constructor succeeds; a cancel function carries no data.
\<close>

record ('h, 'r, 'c) httprest_Server =
  cfg :: "('h, 'r) config"
  server :: "'r http_Server option"
  cancel :: "unit option"
  ctx :: 'c
  startFailure :: "error option"

text \<open>
  An \<^verbatim>\<open>Option\<close> is called as \<^verbatim>\<open>opt(g)\<close> on the server pointer and returns an
  error: it may change the server and answers nil or an error.
\<close>

type_synonym ('h, 'r, 'c) Option =
  "('h, 'r, 'c) httprest_Server \<Rightarrow> ('h, 'r, 'c) httprest_Server \<times> error option"

text \<open>\<^verbatim>\<open>errors.New(msg)\<close>.\<close>

definition errors_New :: "string \<Rightarrow> error" where
  "errors_New msg = PlainError msg"

text \<open>
  The loop over the options: each is applied to the server the earlier ones left; the
  first error ends the loop and is returned.
\<close>

fun apply_opts ::
  "('h, 'r, 'c) Option list \<Rightarrow> ('h, 'r, 'c) httprest_Server \<Rightarrow>
   error + ('h, 'r, 'c) httprest_Server" where
  "apply_opts [] g = Inr g"
| "apply_opts (opt # opts) g =
     (case opt g of
        (g', Some err) \<Rightarrow> Inl err
      | (g', None) \<Rightarrow> apply_opts opts g')"

text \<open>
  The server the constructor starts from: the given context, a zero-valued
  configuration, every other field zero.
\<close>

definition new_Server :: "'c \<Rightarrow> ('h, 'r, 'c) httprest_Server" where
  "new_Server c =
     \<lparr> cfg = \<lparr> httpAddr = [], allowedOrigins = [], handler = None, router = None,
               timeout = 0 \<rparr>,
       server = None, cancel = None, ctx = c, startFailure = None \<rparr>"

definition New ::
  "'c \<Rightarrow> ('h, 'r, 'c) Option list \<Rightarrow> ('h, 'r, 'c) httprest_Server option \<times> error option" where
  "New c opts =
     (case apply_opts opts (new_Server c) of
        Inl err \<Rightarrow> (None, Some err)
      | Inr g \<Rightarrow>
          if router (cfg g) = None then
            (None, Some (errors_New ''router option not configured''))
          else
            (Some (g\<lparr> server :=
                       Some \<lparr> Addr = httpAddr (cfg g), Handler = router (cfg g),
                              ReadHeaderTimeout = Second \<rparr> \<rparr>),
             None))"

subsection \<open>Sample options\<close>

text \<open>
  Options to exercise the constructor with: one that sets the router, one that sets
  the address, one that sets the timeout, and one that fails.
\<close>

definition opt_router :: "nat \<Rightarrow> (nat, nat, nat) Option" where
  "opt_router r g = (g\<lparr> cfg := (cfg g)\<lparr> router := Some r \<rparr> \<rparr>, None)"

definition opt_addr :: "string \<Rightarrow> (nat, nat, nat) Option" where
  "opt_addr a g = (g\<lparr> cfg := (cfg g)\<lparr> httpAddr := a \<rparr> \<rparr>, None)"

definition opt_timeout :: "Duration \<Rightarrow> (nat, nat, nat) Option" where
  "opt_timeout d g = (g\<lparr> cfg := (cfg g)\<lparr> timeout := d \<rparr> \<rparr>, None)"

definition opt_failing :: "(nat, nat, nat) Option" where
  "opt_failing g = (g, Some (PlainError ''invalid option''))"

section \<open>Properties of GetLocalHeader\<close>

subsection \<open>Shared lemmas\<close>

lemmas sample_defs =
  sample_cfg_def sample_req_early_def sample_req_at_fork_def filled32_def
  sample_payload_def sample_kzgRootFn_def failing_kzgRootFn_def sample_resolver_def
  failing_resolver_def sample_producer_def failing_producer_def sample_vs_def
  optimistic_err_def other_cfg_def other_req_def other_payload_def other_resolver_def
  other_producer_def other_vs_def

lemmas run_defs = calls_of_def header_of_def error_of_def

lemmas gate_error_defs = NotReady_def NotReadyCause_def ForkNotActive_def status_Error_def

lemma slice32_filled32: "slice32 (filled32 b) = replicate 32 b"
  by (simp add: filled32_def array32_inverse)

lemma length_slice32: "length (slice32 a) = 32"
  using slice32 [of a] by simp

text \<open>One lemma for each of the seven paths through the function.\<close>

lemma GetLocalHeader_syncing:
  "Syncing vs \<Longrightarrow>
   GetLocalHeader bcfg kzgRootFn vs req = ([Call_Syncing], None, Some NotReady)"
  by (simp add: GetLocalHeader_def gate_error_defs)

lemma GetLocalHeader_optimistic:
  "\<not> Syncing vs \<Longrightarrow> optimisticStatus vs = Some err \<Longrightarrow>
   GetLocalHeader bcfg kzgRootFn vs req =
     ([Call_Syncing, Call_optimisticStatus], None, Some (NotReadyCause err))"
  by (simp add: GetLocalHeader_def gate_error_defs)

lemma GetLocalHeader_fork:
  "\<not> Syncing vs \<Longrightarrow> optimisticStatus vs = None \<Longrightarrow>
   ToEpoch bcfg (req_Slot req) < EPBSForkEpoch bcfg \<Longrightarrow>
   GetLocalHeader bcfg kzgRootFn vs req =
     ([Call_Syncing, Call_optimisticStatus], None, Some ForkNotActive)"
  by (simp add: GetLocalHeader_def gate_error_defs)

lemma GetLocalHeader_resolver_error:
  "\<not> Syncing vs \<Longrightarrow> optimisticStatus vs = None \<Longrightarrow>
   \<not> ToEpoch bcfg (req_Slot req) < EPBSForkEpoch bcfg \<Longrightarrow>
   getParentState vs (req_Slot req) = Inl err \<Longrightarrow>
   GetLocalHeader bcfg kzgRootFn vs req =
     ([Call_Syncing, Call_optimisticStatus, Call_getParentState (req_Slot req)], None, Some err)"
  by (simp add: GetLocalHeader_def Let_def)

lemma GetLocalHeader_producer_error:
  "\<not> Syncing vs \<Longrightarrow> optimisticStatus vs = None \<Longrightarrow>
   \<not> ToEpoch bcfg (req_Slot req) < EPBSForkEpoch bcfg \<Longrightarrow>
   getParentState vs (req_Slot req) = Inr (st, parentRoot) \<Longrightarrow>
   getLocalPayloadFromEngine vs st parentRoot (req_Slot req) (req_ProposerIndex req) = Inl err \<Longrightarrow>
   GetLocalHeader bcfg kzgRootFn vs req =
     ([Call_Syncing, Call_optimisticStatus, Call_getParentState (req_Slot req),
       Call_getLocalPayloadFromEngine st parentRoot (req_Slot req) (req_ProposerIndex req)],
      None, Some (StatusError Internal (''Could not get local payload: '' @ Error err)))"
  by (simp add: GetLocalHeader_def status_Error_def Let_def)

lemma GetLocalHeader_kzg_error:
  "\<not> Syncing vs \<Longrightarrow> optimisticStatus vs = None \<Longrightarrow>
   \<not> ToEpoch bcfg (req_Slot req) < EPBSForkEpoch bcfg \<Longrightarrow>
   getParentState vs (req_Slot req) = Inr (st, parentRoot) \<Longrightarrow>
   getLocalPayloadFromEngine vs st parentRoot (req_Slot req) (req_ProposerIndex req) = Inr p \<Longrightarrow>
   kzgRootFn (KzgCommitments (BlobsBundle p)) = Inl err \<Longrightarrow>
   GetLocalHeader bcfg kzgRootFn vs req =
     ([Call_Syncing, Call_optimisticStatus, Call_getParentState (req_Slot req),
       Call_getLocalPayloadFromEngine st parentRoot (req_Slot req) (req_ProposerIndex req),
       Call_KzgCommitmentsRoot (KzgCommitments (BlobsBundle p))],
      None, Some (StatusError Internal (''Could not get kzg commitments root: '' @ Error err)))"
  by (simp add: GetLocalHeader_def status_Error_def Let_def)

lemma GetLocalHeader_success:
  "\<not> Syncing vs \<Longrightarrow> optimisticStatus vs = None \<Longrightarrow>
   \<not> ToEpoch bcfg (req_Slot req) < EPBSForkEpoch bcfg \<Longrightarrow>
   getParentState vs (req_Slot req) = Inr (st, parentRoot) \<Longrightarrow>
   getLocalPayloadFromEngine vs st parentRoot (req_Slot req) (req_ProposerIndex req) = Inr p \<Longrightarrow>
   kzgRootFn (KzgCommitments (BlobsBundle p)) = Inr kzgRoot \<Longrightarrow>
   GetLocalHeader bcfg kzgRootFn vs req =
     ([Call_Syncing, Call_optimisticStatus, Call_getParentState (req_Slot req),
       Call_getLocalPayloadFromEngine st parentRoot (req_Slot req) (req_ProposerIndex req),
       Call_KzgCommitmentsRoot (KzgCommitments (BlobsBundle p))],
      Some \<lparr> ParentBlockHash = ed_ParentHash (ExecutionData p),
             ParentBlockRoot = slice32 parentRoot,
             BlockHash = ed_BlockHash (ExecutionData p),
             GasLimit = ed_GasLimit (ExecutionData p),
             BuilderIndex = req_ProposerIndex req,
             Slot = req_Slot req,
             Value = 0,
             BlobKzgCommitmentsRoot = slice32 kzgRoot \<rparr>,
      None)"
  by (simp add: GetLocalHeader_def Let_def)

text \<open>
  A run that returns a nil error, or a header, went through every stage: the gate was
  open and the resolver, the producer and the commitment-root function all answered
  without error.
\<close>

lemma GetLocalHeader_ok_inv:
  assumes "error_of (GetLocalHeader bcfg kzgRootFn vs req) = None
           \<or> header_of (GetLocalHeader bcfg kzgRootFn vs req) \<noteq> None"
  obtains st parentRoot p kzgRoot where
    "\<not> Syncing vs" and "optimisticStatus vs = None"
    and "\<not> ToEpoch bcfg (req_Slot req) < EPBSForkEpoch bcfg"
    and "getParentState vs (req_Slot req) = Inr (st, parentRoot)"
    and "getLocalPayloadFromEngine vs st parentRoot (req_Slot req) (req_ProposerIndex req) = Inr p"
    and "kzgRootFn (KzgCommitments (BlobsBundle p)) = Inr kzgRoot"
proof -
  from assms have ns: "\<not> Syncing vs"
    by (auto simp: GetLocalHeader_syncing run_defs)
  with assms have opt: "optimisticStatus vs = None"
    by (cases "optimisticStatus vs") (auto simp: GetLocalHeader_optimistic run_defs)
  with assms ns have fork: "\<not> ToEpoch bcfg (req_Slot req) < EPBSForkEpoch bcfg"
    by (auto simp: GetLocalHeader_fork run_defs)
  obtain st parentRoot where res: "getParentState vs (req_Slot req) = Inr (st, parentRoot)"
    using assms ns opt fork
    by (cases "getParentState vs (req_Slot req)")
       (auto simp: GetLocalHeader_resolver_error run_defs)
  obtain p where prod:
    "getLocalPayloadFromEngine vs st parentRoot (req_Slot req) (req_ProposerIndex req) = Inr p"
    using assms ns opt fork res
    by (cases "getLocalPayloadFromEngine vs st parentRoot (req_Slot req) (req_ProposerIndex req)")
       (auto simp: GetLocalHeader_producer_error run_defs)
  obtain kzgRoot where "kzgRootFn (KzgCommitments (BlobsBundle p)) = Inr kzgRoot"
    using assms ns opt fork res prod
    by (cases "kzgRootFn (KzgCommitments (BlobsBundle p))")
       (auto simp: GetLocalHeader_kzg_error run_defs)
  with ns opt fork res prod show thesis
    by (rule that)
qed

subsection \<open>The precondition gate\<close>

text \<open>
  C1, as stated: for every request whose slot lies in an epoch before the activation
  epoch the function fails with \<open>ForkNotActive\<close>, whatever the sync and optimistic
  state. This fails on a syncing node: at slot 1600 (epoch 50, activation epoch 100) the
  function returns the syncing error \<open>NotReady\<close>, which is not \<open>ForkNotActive\<close>.
\<close>

theorem fork_error_regardless_counterexample:
  "ToEpoch sample_cfg (req_Slot sample_req_early) < EPBSForkEpoch sample_cfg
   \<and> error_of (GetLocalHeader sample_cfg sample_kzgRootFn
                  (sample_vs\<lparr> Syncing := True \<rparr>) sample_req_early) = Some NotReady
   \<and> error_of (GetLocalHeader sample_cfg sample_kzgRootFn
                  (sample_vs\<lparr> Syncing := True \<rparr>) sample_req_early) \<noteq> Some ForkNotActive"
  by (simp add: GetLocalHeader_def ToEpoch_def sample_defs run_defs gate_error_defs Let_def)

text \<open>
  C1, amended: for every request whose slot lies in an epoch before the activation
  epoch, the function returns no header and fails with a precondition-failure status:
  \<open>ForkNotActive\<close> when the node is not syncing and the optimistic check passes, and
  otherwise the \<open>NotReady\<close> error of the earlier check that failed. In every case
  neither the parent-state resolver nor the local payload producer is invoked: the only
  calls made are those to the sync checker and the optimistic check.
\<close>

theorem below_activation_epoch_fails:
  assumes "ToEpoch bcfg (req_Slot req) < EPBSForkEpoch bcfg"
  shows "header_of (GetLocalHeader bcfg kzgRootFn vs req) = None
    \<and> error_of (GetLocalHeader bcfg kzgRootFn vs req) =
        Some (if Syncing vs then NotReady
              else case optimisticStatus vs of
                Some err \<Rightarrow> NotReadyCause err
              | None \<Rightarrow> ForkNotActive)
    \<and> (\<exists>e. error_of (GetLocalHeader bcfg kzgRootFn vs req) = Some e
            \<and> status_Code e = FailedPrecondition)
    \<and> set (calls_of (GetLocalHeader bcfg kzgRootFn vs req))
        \<subseteq> {Call_Syncing, Call_optimisticStatus}"
proof (cases "Syncing vs")
  case True
  then show ?thesis
    by (simp add: GetLocalHeader_syncing run_defs NotReady_def)
next
  case ns: False
  show ?thesis
  proof (cases "optimisticStatus vs")
    case None
    with ns assms show ?thesis
      by (simp add: GetLocalHeader_fork run_defs ForkNotActive_def)
  next
    case (Some err)
    with ns show ?thesis
      by (simp add: GetLocalHeader_optimistic run_defs NotReadyCause_def)
  qed
qed

theorem below_activation_epoch_fails_witness:
  "ToEpoch sample_cfg (req_Slot sample_req_early) < EPBSForkEpoch sample_cfg
   \<and> header_of (GetLocalHeader sample_cfg sample_kzgRootFn sample_vs sample_req_early) = None
   \<and> error_of (GetLocalHeader sample_cfg sample_kzgRootFn sample_vs sample_req_early)
       = Some ForkNotActive
   \<and> set (calls_of (GetLocalHeader sample_cfg sample_kzgRootFn sample_vs sample_req_early))
       \<subseteq> {Call_Syncing, Call_optimisticStatus}"
proof -
  have early: "ToEpoch sample_cfg (req_Slot sample_req_early) < EPBSForkEpoch sample_cfg"
    by (simp add: ToEpoch_def sample_defs)
  from below_activation_epoch_fails [OF early, of sample_kzgRootFn sample_vs] early
  show ?thesis
    by (simp add: sample_vs_def)
qed

text \<open>
  C2. The gate checks syncing first, then the optimistic status, then the fork epoch,
  and the error returned is that of the first check that fails: a syncing node gets
  \<open>NotReady\<close> whatever the other two say; a node that is not syncing but optimistic
  gets \<open>NotReadyCause\<close> whatever the fork check says; \<open>ForkNotActive\<close> is returned
  only when the first two checks pass. The three errors are pairwise different, so the
  caller can tell which check failed.
\<close>

theorem gate_check_order:
  "(Syncing vs \<longrightarrow>
      error_of (GetLocalHeader bcfg kzgRootFn vs req) = Some NotReady)
   \<and> (\<not> Syncing vs \<and> optimisticStatus vs = Some err \<longrightarrow>
      error_of (GetLocalHeader bcfg kzgRootFn vs req) = Some (NotReadyCause err))
   \<and> (\<not> Syncing vs \<and> optimisticStatus vs = None
       \<and> ToEpoch bcfg (req_Slot req) < EPBSForkEpoch bcfg \<longrightarrow>
      error_of (GetLocalHeader bcfg kzgRootFn vs req) = Some ForkNotActive)
   \<and> NotReady \<noteq> NotReadyCause err \<and> NotReady \<noteq> ForkNotActive
   \<and> NotReadyCause err \<noteq> ForkNotActive"
  by (simp add: GetLocalHeader_syncing GetLocalHeader_optimistic GetLocalHeader_fork
        run_defs NotReady_def NotReadyCause_def ForkNotActive_def)

theorem gate_check_order_witness:
  "ToEpoch sample_cfg (req_Slot sample_req_early) < EPBSForkEpoch sample_cfg
   \<and> error_of (GetLocalHeader sample_cfg sample_kzgRootFn
        (sample_vs\<lparr> Syncing := True, optimisticStatus := Some optimistic_err \<rparr>)
        sample_req_early) = Some NotReady
   \<and> error_of (GetLocalHeader sample_cfg sample_kzgRootFn
        (sample_vs\<lparr> optimisticStatus := Some optimistic_err \<rparr>)
        sample_req_early) = Some (NotReadyCause optimistic_err)
   \<and> error_of (GetLocalHeader sample_cfg sample_kzgRootFn sample_vs sample_req_early)
        = Some ForkNotActive"
proof -
  have early: "ToEpoch sample_cfg (req_Slot sample_req_early) < EPBSForkEpoch sample_cfg"
    by (simp add: ToEpoch_def sample_defs)
  from early
    gate_check_order [of "sample_vs\<lparr> Syncing := True, optimisticStatus := Some optimistic_err \<rparr>"
      sample_cfg sample_kzgRootFn sample_req_early optimistic_err]
    gate_check_order [of "sample_vs\<lparr> optimisticStatus := Some optimistic_err \<rparr>"
      sample_cfg sample_kzgRootFn sample_req_early optimistic_err]
    gate_check_order [of sample_vs sample_cfg sample_kzgRootFn sample_req_early optimistic_err]
  show ?thesis
    by (simp add: sample_vs_def)
qed

text \<open>
  C3. When \<^verbatim>\<open>Syncing()\<close> answers true, the function returns a nil header and the
  \<open>NotReady\<close> error, a precondition-failure status, for every slot, proposer index,
  configuration and state of the other collaborators; the only call made is the one to
  \<^verbatim>\<open>Syncing()\<close> itself: neither the optimistic check, nor the parent-state resolver,
  nor the payload producer is reached.
\<close>

theorem syncing_short_circuits:
  assumes "Syncing vs"
  shows "GetLocalHeader bcfg kzgRootFn vs req = ([Call_Syncing], None, Some NotReady)
    \<and> status_Code NotReady = FailedPrecondition"
  using assms by (simp add: GetLocalHeader_def NotReady_def status_Error_def)

theorem syncing_short_circuits_witness:
  "Syncing (sample_vs\<lparr> Syncing := True \<rparr>)
   \<and> GetLocalHeader sample_cfg sample_kzgRootFn (sample_vs\<lparr> Syncing := True \<rparr>)
       sample_req_at_fork = ([Call_Syncing], None, Some NotReady)"
proof -
  have s: "Syncing (sample_vs\<lparr> Syncing := True \<rparr>)"
    by simp
  from syncing_short_circuits [OF s, of sample_cfg sample_kzgRootFn sample_req_at_fork] s
  show ?thesis
    by simp
qed

text \<open>
  C5. On a node that is not syncing and whose optimistic check passes, the fork gate
  works on the epoch \<open>slot div SLOTS_PER_EPOCH\<close>. When that epoch is below the
  activation epoch, the run is over at the gate: the only calls are the two checks, no
  header is returned and the error is \<open>ForkNotActive\<close>. When the activation epoch
  is at most that epoch (equal included), the run goes past the gate: the parent-state
  resolver is called with the requested slot, an error of the resolver is the error
  returned, and when the resolver, the producer and the commitment-root function all
  answer, the run returns a header and no error. So the resolver is called if and only
  if the activation epoch is at most the epoch, and \<open>ForkNotActive\<close> is produced by
  the gate if and only if the epoch is below it.
\<close>

theorem fork_gate_boundary:
  assumes "\<not> Syncing vs" and "optimisticStatus vs = None"
  shows "(req_Slot req div SlotsPerEpoch bcfg < EPBSForkEpoch bcfg \<longrightarrow>
        GetLocalHeader bcfg kzgRootFn vs req
          = ([Call_Syncing, Call_optimisticStatus], None, Some ForkNotActive))
    \<and> (EPBSForkEpoch bcfg \<le> req_Slot req div SlotsPerEpoch bcfg \<longrightarrow>
        Call_getParentState (req_Slot req)
          \<in> set (calls_of (GetLocalHeader bcfg kzgRootFn vs req))
      \<and> (getParentState vs (req_Slot req) = Inl err \<longrightarrow>
           GetLocalHeader bcfg kzgRootFn vs req
             = ([Call_Syncing, Call_optimisticStatus, Call_getParentState (req_Slot req)],
                None, Some err))
      \<and> (getParentState vs (req_Slot req) = Inr (st, parentRoot)
         \<and> getLocalPayloadFromEngine vs st parentRoot (req_Slot req) (req_ProposerIndex req)
             = Inr p
         \<and> kzgRootFn (KzgCommitments (BlobsBundle p)) = Inr kzgRoot \<longrightarrow>
           error_of (GetLocalHeader bcfg kzgRootFn vs req) = None
         \<and> (\<exists>h. header_of (GetLocalHeader bcfg kzgRootFn vs req) = Some h
                \<and> Slot h = req_Slot req)))
    \<and> (Call_getParentState (req_Slot req)
          \<in> set (calls_of (GetLocalHeader bcfg kzgRootFn vs req))
        \<longleftrightarrow> EPBSForkEpoch bcfg \<le> req_Slot req div SlotsPerEpoch bcfg)"
proof -
  let ?r = "GetLocalHeader bcfg kzgRootFn vs req"
  have epoch: "ToEpoch bcfg (req_Slot req) = req_Slot req div SlotsPerEpoch bcfg"
    by (simp add: ToEpoch_def)
  have past: "Call_getParentState (req_Slot req) \<in> set (calls_of ?r)"
    if open_gate: "\<not> ToEpoch bcfg (req_Slot req) < EPBSForkEpoch bcfg"
  proof (cases "getParentState vs (req_Slot req)")
    case (Inl e)
    with assms open_gate show ?thesis
      by (simp add: GetLocalHeader_resolver_error run_defs)
  next
    case (Inr sp)
    obtain st' root' where sp: "sp = (st', root')"
      by (cases sp)
    show ?thesis
    proof (cases "getLocalPayloadFromEngine vs st' root' (req_Slot req) (req_ProposerIndex req)")
      case (Inl e)
      with assms open_gate Inr sp show ?thesis
        by (simp add: GetLocalHeader_producer_error run_defs)
    next
      case p': (Inr p')
      show ?thesis
      proof (cases "kzgRootFn (KzgCommitments (BlobsBundle p'))")
        case (Inl e)
        with assms open_gate Inr sp p' show ?thesis
          by (simp add: GetLocalHeader_kzg_error run_defs)
      next
        case k: (Inr k')
        with assms open_gate Inr sp p' show ?thesis
          by (simp add: GetLocalHeader_success run_defs)
      qed
    qed
  qed
  have closed: "?r = ([Call_Syncing, Call_optimisticStatus], None, Some ForkNotActive)"
    if "ToEpoch bcfg (req_Slot req) < EPBSForkEpoch bcfg"
    using assms that by (rule GetLocalHeader_fork)
  have resolver_error:
    "?r = ([Call_Syncing, Call_optimisticStatus, Call_getParentState (req_Slot req)],
           None, Some err)"
    if "\<not> ToEpoch bcfg (req_Slot req) < EPBSForkEpoch bcfg"
      and "getParentState vs (req_Slot req) = Inl err"
    using assms that by (rule GetLocalHeader_resolver_error)
  have success: "error_of ?r = None \<and> (\<exists>h. header_of ?r = Some h \<and> Slot h = req_Slot req)"
    if "\<not> ToEpoch bcfg (req_Slot req) < EPBSForkEpoch bcfg"
      and "getParentState vs (req_Slot req) = Inr (st, parentRoot)"
      and "getLocalPayloadFromEngine vs st parentRoot (req_Slot req) (req_ProposerIndex req)
             = Inr p"
      and "kzgRootFn (KzgCommitments (BlobsBundle p)) = Inr kzgRoot"
    using assms that by (simp add: GetLocalHeader_success run_defs)
  have iff: "Call_getParentState (req_Slot req) \<in> set (calls_of ?r)
      \<longleftrightarrow> EPBSForkEpoch bcfg \<le> ToEpoch bcfg (req_Slot req)"
  proof (cases "ToEpoch bcfg (req_Slot req) < EPBSForkEpoch bcfg")
    case True
    with closed show ?thesis
      by (simp add: run_defs not_le)
  next
    case False
    with past show ?thesis
      by (simp add: not_less)
  qed
  have c1: "req_Slot req div SlotsPerEpoch bcfg < EPBSForkEpoch bcfg \<longrightarrow>
      ?r = ([Call_Syncing, Call_optimisticStatus], None, Some ForkNotActive)"
    using closed by (simp add: epoch)
  have c2: "EPBSForkEpoch bcfg \<le> req_Slot req div SlotsPerEpoch bcfg \<longrightarrow>
        Call_getParentState (req_Slot req) \<in> set (calls_of ?r)
      \<and> (getParentState vs (req_Slot req) = Inl err \<longrightarrow>
           ?r = ([Call_Syncing, Call_optimisticStatus, Call_getParentState (req_Slot req)],
                 None, Some err))
      \<and> (getParentState vs (req_Slot req) = Inr (st, parentRoot)
         \<and> getLocalPayloadFromEngine vs st parentRoot (req_Slot req) (req_ProposerIndex req)
             = Inr p
         \<and> kzgRootFn (KzgCommitments (BlobsBundle p)) = Inr kzgRoot \<longrightarrow>
           error_of ?r = None \<and> (\<exists>h. header_of ?r = Some h \<and> Slot h = req_Slot req))"
  proof
    assume "EPBSForkEpoch bcfg \<le> req_Slot req div SlotsPerEpoch bcfg"
    then have og: "\<not> ToEpoch bcfg (req_Slot req) < EPBSForkEpoch bcfg"
      by (simp add: epoch not_less)
    from past [OF og] resolver_error [OF og] success [OF og]
    show "Call_getParentState (req_Slot req) \<in> set (calls_of ?r)
      \<and> (getParentState vs (req_Slot req) = Inl err \<longrightarrow>
           ?r = ([Call_Syncing, Call_optimisticStatus, Call_getParentState (req_Slot req)],
                 None, Some err))
      \<and> (getParentState vs (req_Slot req) = Inr (st, parentRoot)
         \<and> getLocalPayloadFromEngine vs st parentRoot (req_Slot req) (req_ProposerIndex req)
             = Inr p
         \<and> kzgRootFn (KzgCommitments (BlobsBundle p)) = Inr kzgRoot \<longrightarrow>
           error_of ?r = None \<and> (\<exists>h. header_of ?r = Some h \<and> Slot h = req_Slot req))"
      by blast
  qed
  have c3: "Call_getParentState (req_Slot req) \<in> set (calls_of ?r)
      \<longleftrightarrow> EPBSForkEpoch bcfg \<le> req_Slot req div SlotsPerEpoch bcfg"
    using iff by (simp add: epoch)
  from c1 c2 c3 show ?thesis
    by (intro conjI)
qed

theorem fork_gate_boundary_witness:
  "\<not> Syncing sample_vs \<and> optimisticStatus sample_vs = None
   \<and> req_Slot sample_req_at_fork div SlotsPerEpoch sample_cfg = EPBSForkEpoch sample_cfg
   \<and> error_of (GetLocalHeader sample_cfg sample_kzgRootFn sample_vs sample_req_at_fork) = None
   \<and> (\<exists>h. header_of (GetLocalHeader sample_cfg sample_kzgRootFn sample_vs sample_req_at_fork)
             = Some h \<and> Slot h = 3200)
   \<and> Call_getParentState 3200
        \<in> set (calls_of (GetLocalHeader sample_cfg sample_kzgRootFn sample_vs sample_req_at_fork))
   \<and> GetLocalHeader sample_cfg sample_kzgRootFn
        (sample_vs\<lparr> getParentState := failing_resolver \<rparr>) sample_req_at_fork
       = ([Call_Syncing, Call_optimisticStatus, Call_getParentState 3200], None,
          Some (StatusError NotFound ''could not find parent state''))
   \<and> req_Slot sample_req_early div SlotsPerEpoch sample_cfg < EPBSForkEpoch sample_cfg
   \<and> GetLocalHeader sample_cfg sample_kzgRootFn sample_vs sample_req_early
       = ([Call_Syncing, Call_optimisticStatus], None, Some ForkNotActive)
   \<and> Call_getParentState 1600
        \<notin> set (calls_of (GetLocalHeader sample_cfg sample_kzgRootFn sample_vs sample_req_early))"
proof -
  have ns: "\<not> Syncing sample_vs" and opt: "optimisticStatus sample_vs = None"
    and ns1: "\<not> Syncing (sample_vs\<lparr> getParentState := failing_resolver \<rparr>)"
    and opt1: "optimisticStatus (sample_vs\<lparr> getParentState := failing_resolver \<rparr>) = None"
    by (simp_all add: sample_vs_def)
  have at: "req_Slot sample_req_at_fork div SlotsPerEpoch sample_cfg = EPBSForkEpoch sample_cfg"
    and early: "req_Slot sample_req_early div SlotsPerEpoch sample_cfg < EPBSForkEpoch sample_cfg"
    by (simp_all add: sample_defs)
  have slots: "req_Slot sample_req_at_fork = 3200" "req_Slot sample_req_early = 1600"
    by (simp_all add: sample_defs)
  have res: "getParentState sample_vs (req_Slot sample_req_at_fork) = Inr (7, filled32 0xAA)"
    and prod: "getLocalPayloadFromEngine sample_vs 7 (filled32 0xAA) (req_Slot sample_req_at_fork)
         (req_ProposerIndex sample_req_at_fork) = Inr sample_payload"
    and kzg: "sample_kzgRootFn (KzgCommitments (BlobsBundle sample_payload))
         = Inr (filled32 2)"
    and res1: "getParentState (sample_vs\<lparr> getParentState := failing_resolver \<rparr>)
         (req_Slot sample_req_at_fork) = Inl (StatusError NotFound ''could not find parent state'')"
    by (simp_all add: sample_vs_def sample_resolver_def sample_producer_def
          sample_kzgRootFn_def sample_payload_def failing_resolver_def)
  from fork_gate_boundary [OF ns opt, of sample_req_at_fork sample_cfg sample_kzgRootFn
      "PlainError []" 7 "filled32 0xAA" sample_payload "filled32 2"] at res prod kzg
  have a: "error_of (GetLocalHeader sample_cfg sample_kzgRootFn sample_vs sample_req_at_fork)
        = None
      \<and> (\<exists>h. header_of (GetLocalHeader sample_cfg sample_kzgRootFn sample_vs sample_req_at_fork)
             = Some h \<and> Slot h = 3200)
      \<and> Call_getParentState 3200
        \<in> set (calls_of (GetLocalHeader sample_cfg sample_kzgRootFn sample_vs sample_req_at_fork))"
    by (simp add: slots)
  from fork_gate_boundary [OF ns1 opt1, of sample_req_at_fork sample_cfg sample_kzgRootFn
      "StatusError NotFound ''could not find parent state''" 7 "filled32 0xAA" sample_payload
      "filled32 2"] at res1
  have b: "GetLocalHeader sample_cfg sample_kzgRootFn
        (sample_vs\<lparr> getParentState := failing_resolver \<rparr>) sample_req_at_fork
       = ([Call_Syncing, Call_optimisticStatus, Call_getParentState 3200], None,
          Some (StatusError NotFound ''could not find parent state''))"
    by (simp add: slots)
  from fork_gate_boundary [OF ns opt, of sample_req_early sample_cfg sample_kzgRootFn
      "PlainError []" 7 "filled32 0xAA" sample_payload "filled32 2"] early
  have c: "GetLocalHeader sample_cfg sample_kzgRootFn sample_vs sample_req_early
       = ([Call_Syncing, Call_optimisticStatus], None, Some ForkNotActive)
     \<and> Call_getParentState 1600
        \<notin> set (calls_of (GetLocalHeader sample_cfg sample_kzgRootFn sample_vs sample_req_early))"
    by (simp add: slots not_le calls_of_def)
  from ns opt at early a b c show ?thesis
    by (simp add: calls_of_def)
qed

subsection \<open>The assembled header\<close>

text \<open>
  C4. Every successful call (nil error) returns a header whose \<^verbatim>\<open>BuilderIndex\<close> is the
  request's proposer index, whose \<^verbatim>\<open>Value\<close> is 0 and whose \<^verbatim>\<open>Slot\<close> is the
  requested slot.
\<close>

theorem success_builder_value_slot:
  assumes "error_of (GetLocalHeader bcfg kzgRootFn vs req) = None"
  shows "\<exists>h. header_of (GetLocalHeader bcfg kzgRootFn vs req) = Some h
    \<and> BuilderIndex h = req_ProposerIndex req \<and> Value h = 0 \<and> Slot h = req_Slot req"
proof -
  from assms have "error_of (GetLocalHeader bcfg kzgRootFn vs req) = None
      \<or> header_of (GetLocalHeader bcfg kzgRootFn vs req) \<noteq> None"
    by simp
  then show ?thesis
  proof (rule GetLocalHeader_ok_inv)
    fix st parentRoot p kzgRoot
    assume "\<not> Syncing vs" "optimisticStatus vs = None"
      "\<not> ToEpoch bcfg (req_Slot req) < EPBSForkEpoch bcfg"
      "getParentState vs (req_Slot req) = Inr (st, parentRoot)"
      "getLocalPayloadFromEngine vs st parentRoot (req_Slot req) (req_ProposerIndex req) = Inr p"
      "kzgRootFn (KzgCommitments (BlobsBundle p)) = Inr kzgRoot"
    then show ?thesis
      by (simp add: GetLocalHeader_success run_defs)
  qed
qed

theorem success_builder_value_slot_witness:
  "error_of (GetLocalHeader sample_cfg sample_kzgRootFn sample_vs sample_req_at_fork) = None
   \<and> (\<exists>h. header_of (GetLocalHeader sample_cfg sample_kzgRootFn sample_vs sample_req_at_fork)
             = Some h
          \<and> BuilderIndex h = 5 \<and> Value h = 0 \<and> Slot h = 3200)"
proof -
  have ok: "error_of (GetLocalHeader sample_cfg sample_kzgRootFn sample_vs sample_req_at_fork)
      = None"
    by (simp add: GetLocalHeader_def ToEpoch_def sample_defs run_defs Let_def)
  from success_builder_value_slot [OF ok] ok show ?thesis
    by (simp add: sample_req_at_fork_def)
qed

text \<open>
  C6. Every successful call went through the resolver, the producer and the
  commitment-root function, and its header is assembled from their answers alone:
  \<^verbatim>\<open>ParentBlockRoot\<close> is the parent root the resolver returned for the requested
  slot, \<^verbatim>\<open>ParentBlockHash\<close>, \<^verbatim>\<open>BlockHash\<close> and \<^verbatim>\<open>GasLimit\<close> are the parent hash,
  block hash and gas limit of the produced payload's execution data, and
  \<^verbatim>\<open>BlobKzgCommitmentsRoot\<close> is the root computed over the payload's commitment
  list.
\<close>

theorem success_fields_mapped:
  assumes "error_of (GetLocalHeader bcfg kzgRootFn vs req) = None"
  shows "\<exists>st parentRoot p kzgRoot h.
      getParentState vs (req_Slot req) = Inr (st, parentRoot)
    \<and> getLocalPayloadFromEngine vs st parentRoot (req_Slot req) (req_ProposerIndex req) = Inr p
    \<and> kzgRootFn (KzgCommitments (BlobsBundle p)) = Inr kzgRoot
    \<and> header_of (GetLocalHeader bcfg kzgRootFn vs req) = Some h
    \<and> ParentBlockRoot h = slice32 parentRoot
    \<and> ParentBlockHash h = ed_ParentHash (ExecutionData p)
    \<and> BlockHash h = ed_BlockHash (ExecutionData p)
    \<and> GasLimit h = ed_GasLimit (ExecutionData p)
    \<and> BlobKzgCommitmentsRoot h = slice32 kzgRoot"
proof -
  from assms have "error_of (GetLocalHeader bcfg kzgRootFn vs req) = None
      \<or> header_of (GetLocalHeader bcfg kzgRootFn vs req) \<noteq> None"
    by simp
  then show ?thesis
  proof (rule GetLocalHeader_ok_inv)
    fix st parentRoot p kzgRoot
    assume "\<not> Syncing vs" "optimisticStatus vs = None"
      "\<not> ToEpoch bcfg (req_Slot req) < EPBSForkEpoch bcfg"
      "getParentState vs (req_Slot req) = Inr (st, parentRoot)"
      "getLocalPayloadFromEngine vs st parentRoot (req_Slot req) (req_ProposerIndex req) = Inr p"
      "kzgRootFn (KzgCommitments (BlobsBundle p)) = Inr kzgRoot"
    then show ?thesis
      by (simp add: GetLocalHeader_success run_defs)
  qed
qed

theorem success_fields_mapped_witness:
  "error_of (GetLocalHeader sample_cfg sample_kzgRootFn sample_vs sample_req_at_fork) = None
   \<and> (\<exists>h. header_of (GetLocalHeader sample_cfg sample_kzgRootFn sample_vs sample_req_at_fork)
             = Some h
          \<and> ParentBlockRoot h = replicate 32 0xAA
          \<and> ParentBlockHash h = replicate 32 0x11
          \<and> BlockHash h = replicate 32 0x22
          \<and> GasLimit h = 30000000
          \<and> BlobKzgCommitmentsRoot h = replicate 32 2)"
proof -
  have ok: "error_of (GetLocalHeader sample_cfg sample_kzgRootFn sample_vs sample_req_at_fork)
      = None"
    by (simp add: GetLocalHeader_def ToEpoch_def sample_defs run_defs Let_def)
  from success_fields_mapped [OF ok] obtain st parentRoot p kzgRoot h where
    res: "getParentState sample_vs (req_Slot sample_req_at_fork) = Inr (st, parentRoot)"
    and prod: "getLocalPayloadFromEngine sample_vs st parentRoot (req_Slot sample_req_at_fork)
                 (req_ProposerIndex sample_req_at_fork) = Inr p"
    and kzg: "sample_kzgRootFn (KzgCommitments (BlobsBundle p)) = Inr kzgRoot"
    and h: "header_of (GetLocalHeader sample_cfg sample_kzgRootFn sample_vs sample_req_at_fork)
              = Some h"
    and fields: "ParentBlockRoot h = slice32 parentRoot"
      "ParentBlockHash h = ed_ParentHash (ExecutionData p)"
      "BlockHash h = ed_BlockHash (ExecutionData p)"
      "GasLimit h = ed_GasLimit (ExecutionData p)"
      "BlobKzgCommitmentsRoot h = slice32 kzgRoot"
    by blast
  from res have pr: "parentRoot = filled32 0xAA"
    by (simp add: sample_vs_def sample_resolver_def)
  from prod have p: "p = sample_payload"
    by (simp add: sample_vs_def sample_producer_def)
  from kzg p have k: "kzgRoot = filled32 2"
    by (simp add: sample_kzgRootFn_def sample_payload_def)
  from ok h fields pr p k show ?thesis
    by (simp add: slice32_filled32 sample_payload_def)
qed

text \<open>
  C7. The commitments root of a successful result is a function of the payload's
  ordered commitment list alone. Take two successful runs with any configurations,
  servers and requests, under the same commitment-root function; if the payloads their
  producers returned carry the same commitment list, the two headers have the same
  \<^verbatim>\<open>BlobKzgCommitmentsRoot\<close>, which is 32 bytes long and is the slice of the root
  that function gives for that list.
\<close>

theorem commitments_root_of_commitments_alone:
  assumes "error_of (GetLocalHeader bcfg1 kzgRootFn vs1 req1) = None"
    and "error_of (GetLocalHeader bcfg2 kzgRootFn vs2 req2) = None"
    and "getParentState vs1 (req_Slot req1) = Inr (st1, parentRoot1)"
    and "getLocalPayloadFromEngine vs1 st1 parentRoot1 (req_Slot req1) (req_ProposerIndex req1)
           = Inr p1"
    and "getParentState vs2 (req_Slot req2) = Inr (st2, parentRoot2)"
    and "getLocalPayloadFromEngine vs2 st2 parentRoot2 (req_Slot req2) (req_ProposerIndex req2)
           = Inr p2"
    and "KzgCommitments (BlobsBundle p1) = KzgCommitments (BlobsBundle p2)"
  shows "\<exists>h1 h2 kzgRoot.
      header_of (GetLocalHeader bcfg1 kzgRootFn vs1 req1) = Some h1
    \<and> header_of (GetLocalHeader bcfg2 kzgRootFn vs2 req2) = Some h2
    \<and> BlobKzgCommitmentsRoot h1 = BlobKzgCommitmentsRoot h2
    \<and> length (BlobKzgCommitmentsRoot h1) = 32
    \<and> kzgRootFn (KzgCommitments (BlobsBundle p1)) = Inr kzgRoot
    \<and> BlobKzgCommitmentsRoot h1 = slice32 kzgRoot"
proof -
  from assms(1) have "error_of (GetLocalHeader bcfg1 kzgRootFn vs1 req1) = None
      \<or> header_of (GetLocalHeader bcfg1 kzgRootFn vs1 req1) \<noteq> None"
    by simp
  then obtain k1 where gate1: "\<not> Syncing vs1" "optimisticStatus vs1 = None"
      "\<not> ToEpoch bcfg1 (req_Slot req1) < EPBSForkEpoch bcfg1"
    and k1: "kzgRootFn (KzgCommitments (BlobsBundle p1)) = Inr k1"
    using assms(3,4) by (elim GetLocalHeader_ok_inv) simp
  from assms(2) have "error_of (GetLocalHeader bcfg2 kzgRootFn vs2 req2) = None
      \<or> header_of (GetLocalHeader bcfg2 kzgRootFn vs2 req2) \<noteq> None"
    by simp
  then obtain k2 where gate2: "\<not> Syncing vs2" "optimisticStatus vs2 = None"
      "\<not> ToEpoch bcfg2 (req_Slot req2) < EPBSForkEpoch bcfg2"
    and k2: "kzgRootFn (KzgCommitments (BlobsBundle p2)) = Inr k2"
    using assms(5,6) by (elim GetLocalHeader_ok_inv) simp
  from k1 k2 assms(7) have same: "k2 = k1"
    by simp
  have r1: "header_of (GetLocalHeader bcfg1 kzgRootFn vs1 req1)
      = Some \<lparr> ParentBlockHash = ed_ParentHash (ExecutionData p1),
               ParentBlockRoot = slice32 parentRoot1,
               BlockHash = ed_BlockHash (ExecutionData p1),
               GasLimit = ed_GasLimit (ExecutionData p1),
               BuilderIndex = req_ProposerIndex req1,
               Slot = req_Slot req1,
               Value = 0,
               BlobKzgCommitmentsRoot = slice32 k1 \<rparr>"
    using gate1 assms(3,4) k1 by (simp add: GetLocalHeader_success header_of_def)
  have r2: "header_of (GetLocalHeader bcfg2 kzgRootFn vs2 req2)
      = Some \<lparr> ParentBlockHash = ed_ParentHash (ExecutionData p2),
               ParentBlockRoot = slice32 parentRoot2,
               BlockHash = ed_BlockHash (ExecutionData p2),
               GasLimit = ed_GasLimit (ExecutionData p2),
               BuilderIndex = req_ProposerIndex req2,
               Slot = req_Slot req2,
               Value = 0,
               BlobKzgCommitmentsRoot = slice32 k1 \<rparr>"
    using gate2 assms(5,6) k2 same by (simp add: GetLocalHeader_success header_of_def)
  from r1 r2 k1 show ?thesis
    by (simp add: length_slice32)
qed

theorem commitments_root_of_commitments_alone_witness:
  "error_of (GetLocalHeader sample_cfg sample_kzgRootFn sample_vs sample_req_at_fork) = None
   \<and> error_of (GetLocalHeader other_cfg sample_kzgRootFn other_vs other_req) = None
   \<and> KzgCommitments (BlobsBundle sample_payload) = KzgCommitments (BlobsBundle other_payload)
   \<and> sample_cfg \<noteq> other_cfg \<and> sample_req_at_fork \<noteq> other_req
   \<and> getParentState sample_vs (req_Slot sample_req_at_fork)
        \<noteq> getParentState other_vs (req_Slot other_req)
   \<and> (\<exists>h1 h2.
        header_of (GetLocalHeader sample_cfg sample_kzgRootFn sample_vs sample_req_at_fork)
          = Some h1
      \<and> header_of (GetLocalHeader other_cfg sample_kzgRootFn other_vs other_req) = Some h2
      \<and> h1 \<noteq> h2
      \<and> BlobKzgCommitmentsRoot h1 = BlobKzgCommitmentsRoot h2
      \<and> length (BlobKzgCommitmentsRoot h1) = 32)"
proof -
  have ok1: "error_of (GetLocalHeader sample_cfg sample_kzgRootFn sample_vs sample_req_at_fork)
      = None"
    by (simp add: GetLocalHeader_def ToEpoch_def sample_defs run_defs Let_def)
  have ok2: "error_of (GetLocalHeader other_cfg sample_kzgRootFn other_vs other_req) = None"
    by (simp add: GetLocalHeader_def ToEpoch_def sample_defs run_defs Let_def)
  have res1: "getParentState sample_vs (req_Slot sample_req_at_fork) = Inr (7, filled32 0xAA)"
    by (simp add: sample_vs_def sample_resolver_def)
  have prod1: "getLocalPayloadFromEngine sample_vs 7 (filled32 0xAA) (req_Slot sample_req_at_fork)
      (req_ProposerIndex sample_req_at_fork) = Inr sample_payload"
    by (simp add: sample_vs_def sample_producer_def)
  have res2: "getParentState other_vs (req_Slot other_req) = Inr (9, filled32 0xBB)"
    by (simp add: other_vs_def other_resolver_def)
  have prod2: "getLocalPayloadFromEngine other_vs 9 (filled32 0xBB) (req_Slot other_req)
      (req_ProposerIndex other_req) = Inr other_payload"
    by (simp add: other_vs_def other_producer_def)
  have same: "KzgCommitments (BlobsBundle sample_payload)
      = KzgCommitments (BlobsBundle other_payload)"
    by (simp add: sample_payload_def other_payload_def)
  have diff: "sample_cfg \<noteq> other_cfg" "sample_req_at_fork \<noteq> other_req"
    by (simp_all add: sample_cfg_def other_cfg_def sample_req_at_fork_def other_req_def)
  have diff_res: "getParentState sample_vs (req_Slot sample_req_at_fork)
       \<noteq> getParentState other_vs (req_Slot other_req)"
    using res1 res2 by simp
  have hd1: "header_of (GetLocalHeader sample_cfg sample_kzgRootFn sample_vs sample_req_at_fork)
      = Some \<lparr> ParentBlockHash = replicate 32 0x11, ParentBlockRoot = replicate 32 0xAA,
               BlockHash = replicate 32 0x22, GasLimit = 30000000, BuilderIndex = 5,
               Slot = 3200, Value = 0, BlobKzgCommitmentsRoot = replicate 32 2 \<rparr>"
    by (simp add: GetLocalHeader_def ToEpoch_def sample_defs run_defs Let_def array32_inverse)
  have hd2: "header_of (GetLocalHeader other_cfg sample_kzgRootFn other_vs other_req)
      = Some \<lparr> ParentBlockHash = replicate 32 0x33, ParentBlockRoot = replicate 32 0xBB,
               BlockHash = replicate 32 0x44, GasLimit = 36000000, BuilderIndex = 9,
               Slot = 6400, Value = 0, BlobKzgCommitmentsRoot = replicate 32 2 \<rparr>"
    by (simp add: GetLocalHeader_def ToEpoch_def sample_defs run_defs Let_def array32_inverse)
  from commitments_root_of_commitments_alone [OF ok1 ok2 res1 prod1 res2 prod2 same]
    ok1 ok2 same diff diff_res hd1 hd2
  show ?thesis
    by simp
qed

subsection \<open>Errors\<close>

text \<open>
  C8. Past the gate (not syncing, optimistic check passed, fork active), an error of
  the parent-state resolver is returned to the caller as it is, with the code and text
  the resolver gave it; an error of the payload producer and an error of the
  commitment-root function are each returned as a status of code \<^verbatim>\<open>Internal\<close> whose
  message ends with the text of the original error. No header is returned in any of
  the three cases.
\<close>

theorem post_gate_errors_classified:
  assumes "\<not> Syncing vs" and "optimisticStatus vs = None"
    and "\<not> ToEpoch bcfg (req_Slot req) < EPBSForkEpoch bcfg"
  shows "(getParentState vs (req_Slot req) = Inl err \<longrightarrow>
        header_of (GetLocalHeader bcfg kzgRootFn vs req) = None
      \<and> error_of (GetLocalHeader bcfg kzgRootFn vs req) = Some err)
    \<and> (getParentState vs (req_Slot req) = Inr (st, parentRoot)
       \<and> getLocalPayloadFromEngine vs st parentRoot (req_Slot req) (req_ProposerIndex req)
           = Inl err \<longrightarrow>
        header_of (GetLocalHeader bcfg kzgRootFn vs req) = None
      \<and> error_of (GetLocalHeader bcfg kzgRootFn vs req)
          = Some (StatusError Internal (''Could not get local payload: '' @ Error err)))
    \<and> (getParentState vs (req_Slot req) = Inr (st, parentRoot)
       \<and> getLocalPayloadFromEngine vs st parentRoot (req_Slot req) (req_ProposerIndex req)
           = Inr p
       \<and> kzgRootFn (KzgCommitments (BlobsBundle p)) = Inl err \<longrightarrow>
        header_of (GetLocalHeader bcfg kzgRootFn vs req) = None
      \<and> error_of (GetLocalHeader bcfg kzgRootFn vs req)
          = Some (StatusError Internal (''Could not get kzg commitments root: '' @ Error err)))"
  using assms
  by (simp add: GetLocalHeader_resolver_error GetLocalHeader_producer_error
        GetLocalHeader_kzg_error run_defs)

theorem post_gate_errors_classified_witness:
  "\<not> Syncing sample_vs \<and> optimisticStatus sample_vs = None
   \<and> \<not> ToEpoch sample_cfg (req_Slot sample_req_at_fork) < EPBSForkEpoch sample_cfg
   \<and> error_of (GetLocalHeader sample_cfg sample_kzgRootFn
        (sample_vs\<lparr> getParentState := failing_resolver \<rparr>) sample_req_at_fork)
       = Some (StatusError NotFound ''could not find parent state'')
   \<and> error_of (GetLocalHeader sample_cfg sample_kzgRootFn
        (sample_vs\<lparr> getLocalPayloadFromEngine := failing_producer \<rparr>) sample_req_at_fork)
       = Some (StatusError Internal ''Could not get local payload: engine unavailable'')
   \<and> error_of (GetLocalHeader sample_cfg failing_kzgRootFn sample_vs sample_req_at_fork)
       = Some (StatusError Internal
            ''Could not get kzg commitments root: could not compute merkleization'')"
proof -
  have ns: "\<not> Syncing sample_vs" and opt: "optimisticStatus sample_vs = None"
    by (simp_all add: sample_vs_def)
  have gate: "\<not> ToEpoch sample_cfg (req_Slot sample_req_at_fork) < EPBSForkEpoch sample_cfg"
    by (simp add: ToEpoch_def sample_defs)
  have ns1: "\<not> Syncing (sample_vs\<lparr> getParentState := failing_resolver \<rparr>)"
    and opt1: "optimisticStatus (sample_vs\<lparr> getParentState := failing_resolver \<rparr>) = None"
    and ns2: "\<not> Syncing (sample_vs\<lparr> getLocalPayloadFromEngine := failing_producer \<rparr>)"
    and opt2: "optimisticStatus (sample_vs\<lparr> getLocalPayloadFromEngine := failing_producer \<rparr>)
                 = None"
    by (simp_all add: sample_vs_def)
  from post_gate_errors_classified [OF ns1 opt1 gate,
      of "StatusError NotFound ''could not find parent state''" sample_kzgRootFn]
    post_gate_errors_classified [OF ns2 opt2 gate,
      of "PlainError ''engine unavailable''" sample_kzgRootFn 7 "filled32 0xAA"]
    post_gate_errors_classified [OF ns opt gate,
      of "PlainError ''could not compute merkleization''" failing_kzgRootFn
         7 "filled32 0xAA" sample_payload]
    ns opt gate
  show ?thesis
    by (simp add: sample_vs_def sample_resolver_def failing_resolver_def sample_producer_def
          failing_producer_def failing_kzgRootFn_def)
qed

text \<open>
  C9. The function returns a header exactly when it returns a nil error: a run with an
  error has a nil header, whatever stage failed, and a run without an error has a
  header.
\<close>

theorem header_iff_no_error:
  "(header_of (GetLocalHeader bcfg kzgRootFn vs req) \<noteq> None)
     = (error_of (GetLocalHeader bcfg kzgRootFn vs req) = None)"
proof -
  let ?r = "GetLocalHeader bcfg kzgRootFn vs req"
  have both: "header_of ?r \<noteq> None \<and> error_of ?r = None"
    if "error_of ?r = None \<or> header_of ?r \<noteq> None"
    using that
  proof (rule GetLocalHeader_ok_inv)
    fix st parentRoot p kzgRoot
    assume "\<not> Syncing vs" "optimisticStatus vs = None"
      "\<not> ToEpoch bcfg (req_Slot req) < EPBSForkEpoch bcfg"
      "getParentState vs (req_Slot req) = Inr (st, parentRoot)"
      "getLocalPayloadFromEngine vs st parentRoot (req_Slot req) (req_ProposerIndex req) = Inr p"
      "kzgRootFn (KzgCommitments (BlobsBundle p)) = Inr kzgRoot"
    then show ?thesis
      by (simp add: GetLocalHeader_success run_defs)
  qed
  then show ?thesis
    by blast
qed

section \<open>Properties of the HTTP server constructor\<close>

lemma apply_opts_append:
  "apply_opts (pre @ post) g =
     (case apply_opts pre g of Inl err \<Rightarrow> Inl err | Inr g1 \<Rightarrow> apply_opts post g1)"
proof (induction pre arbitrary: g)
  case Nil
  show ?case by simp
next
  case (Cons opt pre)
  obtain g' e where step: "opt g = (g', e)"
    by (cases "opt g")
  show ?case
  proof (cases e)
    case None
    with step Cons.IH [of g'] show ?thesis by simp
  next
    case (Some err)
    with step show ?thesis by simp
  qed
qed

text \<open>
  C10. The constructor returns an error and a nil server whenever an option returns
  an error (the option is run on the server the earlier options left, and its error is
  the one returned), and whenever all options succeed but leave the router nil (the
  error then is \<^verbatim>\<open>router option not configured\<close>). Otherwise it returns a nil error
  and a server whose \<^verbatim>\<open>http.Server\<close> has the configured router as handler, the
  configured address, and a read-header timeout of one second whatever timeout the
  options configured. A server is returned exactly when the error is nil.
\<close>

theorem New_result:
  "(apply_opts pre (new_Server c) = Inr g1 \<and> opt g1 = (g2, Some err) \<longrightarrow>
      New c (pre @ opt # post) = (None, Some err))
   \<and> (apply_opts opts (new_Server c) = Inr g \<and> router (cfg g) = None \<longrightarrow>
      New c opts = (None, Some (PlainError ''router option not configured'')))
   \<and> (apply_opts opts (new_Server c) = Inr g \<and> router (cfg g) = Some r \<longrightarrow>
      (\<exists>s hs. New c opts = (Some s, None)
         \<and> server s = Some hs
         \<and> Handler hs = Some r
         \<and> ReadHeaderTimeout hs = Second
         \<and> Addr hs = httpAddr (cfg g)
         \<and> cfg s = cfg g))
   \<and> ((fst (New c opts) = None) = (snd (New c opts) \<noteq> None))"
proof -
  have failing: "New c (pre @ opt # post) = (None, Some err)"
    if "apply_opts pre (new_Server c) = Inr g1" and "opt g1 = (g2, Some err)"
    using that by (simp add: New_def apply_opts_append)
  have no_router: "New c opts = (None, Some (PlainError ''router option not configured''))"
    if "apply_opts opts (new_Server c) = Inr g" and "router (cfg g) = None"
    using that by (simp add: New_def errors_New_def)
  have built: "\<exists>s hs. New c opts = (Some s, None) \<and> server s = Some hs \<and> Handler hs = Some r
      \<and> ReadHeaderTimeout hs = Second \<and> Addr hs = httpAddr (cfg g) \<and> cfg s = cfg g"
    if "apply_opts opts (new_Server c) = Inr g" and "router (cfg g) = Some r"
    using that by (simp add: New_def)
  have exactly: "(fst (New c opts) = None) = (snd (New c opts) \<noteq> None)"
    by (simp add: New_def split: sum.splits)
  from failing no_router built exactly show ?thesis
    by blast
qed

theorem New_result_witness:
  "apply_opts [opt_addr '':3500''] (new_Server 0) \<noteq> Inl (PlainError ''invalid option'')
   \<and> New 0 ([opt_addr '':3500''] @ opt_failing # [opt_router 1])
       = (None, Some (PlainError ''invalid option''))
   \<and> New 0 [opt_addr '':3500'', opt_timeout 5000000000]
       = (None, Some (PlainError ''router option not configured''))
   \<and> (\<exists>s hs. New 0 [opt_addr '':3500'', opt_router 1, opt_timeout 5000000000] = (Some s, None)
         \<and> server s = Some hs
         \<and> Handler hs = Some 1
         \<and> ReadHeaderTimeout hs = 1000000000
         \<and> Addr hs = '':3500''
         \<and> timeout (cfg s) = 5000000000)"
proof -
  let ?g0 = "new_Server (0::nat) :: (nat, nat, nat) httprest_Server"
  let ?g1 = "?g0 \<lparr> cfg := (cfg ?g0) \<lparr> httpAddr := '':3500'' \<rparr> \<rparr>"
  let ?g2 = "?g1 \<lparr> cfg := (cfg ?g1) \<lparr> timeout := 5000000000 \<rparr> \<rparr>"
  let ?g3 = "?g1 \<lparr> cfg := (cfg ?g1) \<lparr> router := Some 1, timeout := 5000000000 \<rparr> \<rparr>"
  have pre: "apply_opts [opt_addr '':3500''] (new_Server 0) = Inr ?g1"
    by (simp add: opt_addr_def)
  have fail: "opt_failing ?g1 = (?g1, Some (PlainError ''invalid option''))"
    by (simp add: opt_failing_def)
  have two: "apply_opts [opt_addr '':3500'', opt_timeout 5000000000] (new_Server 0) = Inr ?g2"
    by (simp add: opt_addr_def opt_timeout_def)
  have no_router: "router (cfg ?g2) = None"
    by (simp add: new_Server_def)
  have three: "apply_opts [opt_addr '':3500'', opt_router 1, opt_timeout 5000000000]
      (new_Server 0) = Inr ?g3"
    by (simp add: opt_addr_def opt_router_def opt_timeout_def)
  have with_router: "router (cfg ?g3) = Some 1"
    by simp
  from New_result [where pre = "[opt_addr '':3500'']" and c = 0 and ?g1.0 = ?g1
      and opt = opt_failing and ?g2.0 = ?g1 and err = "PlainError ''invalid option''"
      and post = "[opt_router 1]" and opts = "[]" and g = ?g0 and r = 0]
  have "apply_opts [opt_addr '':3500''] ?g0 = Inr ?g1
      \<and> opt_failing ?g1 = (?g1, Some (PlainError ''invalid option'')) \<longrightarrow>
    New 0 ([opt_addr '':3500''] @ opt_failing # [opt_router 1])
      = (None, Some (PlainError ''invalid option''))"
    by (rule conjunct1)
  with pre fail
  have a: "New 0 ([opt_addr '':3500''] @ opt_failing # [opt_router 1])
      = (None, Some (PlainError ''invalid option''))"
    by (elim impE) (rule conjI)
  from New_result [where pre = "[]" and c = 0 and ?g1.0 = ?g0 and opt = opt_failing
      and ?g2.0 = ?g0 and err = "PlainError ''invalid option''" and post = "[]"
      and opts = "[opt_addr '':3500'', opt_timeout 5000000000]" and g = ?g2 and r = 0]
  have "apply_opts [opt_addr '':3500'', opt_timeout 5000000000] ?g0 = Inr ?g2
      \<and> router (cfg ?g2) = None \<longrightarrow>
    New 0 [opt_addr '':3500'', opt_timeout 5000000000]
      = (None, Some (PlainError ''router option not configured''))"
    by (elim conjE)
  with two no_router
  have b: "New 0 [opt_addr '':3500'', opt_timeout 5000000000]
      = (None, Some (PlainError ''router option not configured''))"
    by (elim impE) (rule conjI)
  from New_result [where pre = "[]" and c = 0 and ?g1.0 = ?g0 and opt = opt_failing
      and ?g2.0 = ?g0 and err = "PlainError ''invalid option''" and post = "[]"
      and opts = "[opt_addr '':3500'', opt_router 1, opt_timeout 5000000000]"
      and g = ?g3 and r = 1]
  have "apply_opts [opt_addr '':3500'', opt_router 1, opt_timeout 5000000000] ?g0 = Inr ?g3
      \<and> router (cfg ?g3) = Some 1 \<longrightarrow>
    (\<exists>s hs. New 0 [opt_addr '':3500'', opt_router 1, opt_timeout 5000000000] = (Some s, None)
       \<and> server s = Some hs \<and> Handler hs = Some 1 \<and> ReadHeaderTimeout hs = Second
       \<and> Addr hs = httpAddr (cfg ?g3) \<and> cfg s = cfg ?g3)"
    by (elim conjE)
  with three with_router
  have "\<exists>s hs. New 0 [opt_addr '':3500'', opt_router 1, opt_timeout 5000000000] = (Some s, None)
       \<and> server s = Some hs \<and> Handler hs = Some 1 \<and> ReadHeaderTimeout hs = Second
       \<and> Addr hs = httpAddr (cfg ?g3) \<and> cfg s = cfg ?g3"
    by (elim impE) (rule conjI)
  then obtain s hs where c:
    "New 0 [opt_addr '':3500'', opt_router 1, opt_timeout 5000000000] = (Some s, None)"
    "server s = Some hs" "Handler hs = Some 1" "ReadHeaderTimeout hs = Second"
    "Addr hs = httpAddr (cfg ?g3)" "cfg s = cfg ?g3"
    by (elim exE conjE)
  from c have d: "ReadHeaderTimeout hs = 1000000000" "Addr hs = '':3500''"
    "timeout (cfg s) = 5000000000"
    by (simp_all add: Second_def new_Server_def)
  from pre a b c(1,2,3) d show ?thesis
    by simp
qed

end
